theory Spec2Isabelle
  imports Main "HOL-Library.Sublist"
begin

section \<open>Python values used by i3\_mcp.py\<close>

text \<open>
  Python strings are modelled as \<^typ>\<open>string\<close>; the literals of the source are ASCII.
  Python integers are \<^typ>\<open>int\<close>. \<open>str(i)\<close> is the decimal numeral, as an f-string
  renders an integer.
\<close>

definition digit :: "nat \<Rightarrow> char" where
  "digit d = (if d = 0 then CHR ''0'' else if d = 1 then CHR ''1'' else if d = 2 then CHR ''2''
     else if d = 3 then CHR ''3'' else if d = 4 then CHR ''4'' else if d = 5 then CHR ''5''
     else if d = 6 then CHR ''6'' else if d = 7 then CHR ''7'' else if d = 8 then CHR ''8''
     else CHR ''9'')"

fun str_nat :: "nat \<Rightarrow> string" where
  "str_nat n = (if n < 10 then [digit n] else str_nat (n div 10) @ [digit (n mod 10)])"

declare str_nat.simps [simp del]

definition str_int :: "int \<Rightarrow> string" where
  "str_int i = (if i < 0 then CHR ''-'' # str_nat (nat (- i)) else str_nat (nat i))"

text \<open>An f-string renders \<open>None\<close> as the text \<open>None\<close>.\<close>

definition fmt_opt_str :: "string option \<Rightarrow> string" where
  "fmt_opt_str v = (case v of None \<Rightarrow> ''None'' | Some s \<Rightarrow> s)"

text \<open>Truthiness of optional values: \<open>None\<close>, the empty string and \<open>0\<close> are false.\<close>

definition truthy_str :: "string option \<Rightarrow> bool" where
  "truthy_str v = (case v of None \<Rightarrow> False | Some s \<Rightarrow> s \<noteq> [])"

definition truthy_int :: "int option \<Rightarrow> bool" where
  "truthy_int v = (case v of None \<Rightarrow> False | Some i \<Rightarrow> i \<noteq> 0)"

text \<open>\<open>", ".join(commands)\<close>\<close>

fun join_comma :: "string list \<Rightarrow> string" where
  "join_comma [] = []"
| "join_comma [c] = c"
| "join_comma (c # d # cs) = c @ '', '' @ join_comma (d # cs)"

text \<open>\<open>content[:limit]\<close>: a negative bound counts from the end.\<close>

definition slice_to :: "'a list \<Rightarrow> int \<Rightarrow> 'a list" where
  "slice_to xs k = (if 0 \<le> k then take (nat k) xs else take (nat (int (length xs) + k)) xs)"

text \<open>\<open>str.lower()\<close> on ASCII text.\<close>

definition lower_char :: "char \<Rightarrow> char" where
  "lower_char c =
     (case map_of (zip ''ABCDEFGHIJKLMNOPQRSTUVWXYZ'' ''abcdefghijklmnopqrstuvwxyz'') c of
        Some d \<Rightarrow> d | None \<Rightarrow> c)"

definition lower :: "string \<Rightarrow> string" where
  "lower s = map lower_char s"

section \<open>Response truncation\<close>

definition CHARACTER_LIMIT :: int where
  "CHARACTER_LIMIT = 25000"

definition truncation_notice :: "int \<Rightarrow> string" where
  "truncation_notice limit =
     ''\<newline>\<newline>---\<newline>**Response truncated** (exceeded '' @ str_int limit @ '' characters). ''
       @ ''Use more specific filters or criteria to narrow results.''"

definition truncate_response :: "string \<Rightarrow> int \<Rightarrow> string" where
  "truncate_response content limit =
     (if int (length content) \<le> limit then content
      else slice_to content limit @ truncation_notice limit)"

section \<open>The container tree\<close>

text \<open>
  A node of the tree that \<open>get_tree\<close> returns, with the keys the program reads. An
  optional field is \<open>None\<close> when the key is missing; for \<open>window\<close>,
  \<open>scratchpad_state\<close> and \<open>output\<close>, which the source reads without a default, \<open>None\<close>
  is JSON \<open>null\<close> as well. A key that is present holds a value of the JSON type that i3
  documents for it (a string for the name, the class and the types, a boolean for
  \<open>urgent\<close>). The two child lists default to the empty list, as
  \<open>node.get("nodes", [])\<close> does. The keys \<open>"type"\<close> and \<open>"output"\<close> are the fields
  \<open>node_type\<close> and \<open>node_output\<close>.
\<close>

record window_props =
  wp_class :: "string option"
  wp_instance :: "string option"
  wp_window_role :: "string option"

datatype node =
  Node (window: "int option") (name: "string option")
       (window_properties: "window_props option") (window_type: "string option")
       (node_type: "string option") (urgent: "bool option")
       (scratchpad_state: "string option") (node_output: "string option")
       (nodes: "node list") (floating_nodes: "node list")

text \<open>\<open>window_props.get(key, "")\<close> after \<open>node.get("window_properties", {})\<close>, and
  the other \<open>.get(key, default)\<close> reads.\<close>

definition get_or :: "'a option \<Rightarrow> 'a \<Rightarrow> 'a" where
  "get_or v d = (case v of None \<Rightarrow> d | Some x \<Rightarrow> x)"

definition window_prop :: "(window_props \<Rightarrow> string option) \<Rightarrow> node \<Rightarrow> string option" where
  "window_prop fld n = (case window_properties n of None \<Rightarrow> None | Some wp \<Rightarrow> fld wp)"

subsection \<open>find\_windows\_recursive\<close>

text \<open>
  The criteria dictionary is the list of its items; \<open>None\<close> and the empty dictionary are
  both the empty list (the source tests \<open>not criteria\<close>). String filters carry a string and
  the two flags a boolean, as \<open>i3_get_tree\<close> builds them; \<open>Other\<close> is any key the loop has no
  branch for.
\<close>

datatype criterion =
    Class string | Title string | Instance string | Role string | Type string
  | Floating bool | Urgent bool | Workspace string | Other string

text \<open>One pass of the loop body: whether the item sets \<open>matches = False\<close>.\<close>

fun criterion_fails :: "node \<Rightarrow> criterion \<Rightarrow> bool" where
  "criterion_fails n (Class v) = (lower (get_or (window_prop wp_class n) []) \<noteq> lower v)"
| "criterion_fails n (Title v) = (\<not> sublist (lower v) (lower (get_or (name n) [])))"
| "criterion_fails n (Instance v) = (lower (get_or (window_prop wp_instance n) []) \<noteq> lower v)"
| "criterion_fails n (Role v) = (lower (get_or (window_prop wp_window_role n) []) \<noteq> lower v)"
| "criterion_fails n (Type v) = (lower (get_or (window_type n) []) \<noteq> lower v)"
| "criterion_fails n (Floating v) = ((node_type n = Some ''floating_con'') \<noteq> v)"
| "criterion_fails n (Urgent v) = (get_or (urgent n) False \<noteq> v)"
| "criterion_fails n (Workspace v) = False"
| "criterion_fails n (Other k) = False"

fun criteria_loop :: "node \<Rightarrow> bool \<Rightarrow> criterion list \<Rightarrow> bool" where
  "criteria_loop n matches [] = matches"
| "criteria_loop n matches (c # cs) =
     criteria_loop n (if criterion_fails n c then False else matches) cs"

definition node_matches :: "node \<Rightarrow> criterion list \<Rightarrow> bool" where
  "node_matches n criteria = (if criteria = [] then True else criteria_loop n True criteria)"

text \<open>\<open>node.get("window") and node.get("window") != 0\<close>\<close>

definition is_window :: "node \<Rightarrow> bool" where
  "is_window n = (truthy_int (window n) \<and> window n \<noteq> Some 0)"

fun find_windows_recursive :: "node \<Rightarrow> criterion list \<Rightarrow> node list"
  and find_windows_children :: "node list \<Rightarrow> criterion list \<Rightarrow> node list" where
  "find_windows_recursive (Node w nm wp wt ty u ss out ns fs) criteria =
     (if is_window (Node w nm wp wt ty u ss out ns fs)
         \<and> node_matches (Node w nm wp wt ty u ss out ns fs) criteria
      then [Node w nm wp wt ty u ss out ns fs] else [])
     @ find_windows_children (ns @ fs) criteria"
| "find_windows_children [] criteria = []"
| "find_windows_children (child # rest) criteria =
     find_windows_recursive child criteria @ find_windows_children rest criteria"

subsection \<open>find\_visible\_scratchpads\<close>

record visible_window =
  vw_window_id :: "int option"
  vw_name :: string
  vw_class :: string
  vw_output :: "string option"
  vw_scratchpad_state :: "string option"

text \<open>The inner loop: the first child with a truthy \<open>window\<close>, then \<open>break\<close>.\<close>

fun first_window_child :: "node list \<Rightarrow> node option" where
  "first_window_child [] = None"
| "first_window_child (child # rest) =
     (if truthy_int (window child) then Some child else first_window_child rest)"

definition visible_record :: "node \<Rightarrow> node \<Rightarrow> visible_window" where
  "visible_record n child =
     \<lparr> vw_window_id = window child,
       vw_name = get_or (name child) ''Untitled'',
       vw_class = get_or (window_prop wp_class child) ''N/A'',
       vw_output = node_output n,
       vw_scratchpad_state = scratchpad_state n \<rparr>"

definition is_visible_scratchpad :: "node \<Rightarrow> bool" where
  "is_visible_scratchpad n =
     (truthy_str (scratchpad_state n) \<and> scratchpad_state n \<noteq> Some ''none''
        \<and> node_output n \<noteq> Some ''__i3'')"

fun find_visible_scratchpads :: "node \<Rightarrow> visible_window list"
  and find_visible_children :: "node list \<Rightarrow> visible_window list" where
  "find_visible_scratchpads (Node w nm wp wt ty u ss out ns fs) =
     (if is_visible_scratchpad (Node w nm wp wt ty u ss out ns fs)
      then (case first_window_child ns of
              None \<Rightarrow> []
            | Some child \<Rightarrow> [visible_record (Node w nm wp wt ty u ss out ns fs) child])
      else [])
     @ find_visible_children (ns @ fs)"
| "find_visible_children [] = []"
| "find_visible_children (child # rest) =
     find_visible_scratchpads child @ find_visible_children rest"

subsection \<open>The traversal order the specification names\<close>

text \<open>
  Depth-first visitation: a node, then the subtrees of its primary children in order, then
  the subtrees of its floating children in order.
\<close>

fun visit_order :: "node \<Rightarrow> node list"
  and visit_order_list :: "node list \<Rightarrow> node list" where
  "visit_order (Node w nm wp wt ty u ss out ns fs) =
     Node w nm wp wt ty u ss out ns fs # visit_order_list ns @ visit_order_list fs"
| "visit_order_list [] = []"
| "visit_order_list (child # rest) = visit_order child @ visit_order_list rest"

section \<open>The IPC transport\<close>

text \<open>
  \<open>run_i3_msg\<close> and \<open>run_i3_msg_get_type\<close> start the \<open>i3-msg\<close> process. The window
  manager is outside the program: it is a parameter \<open>env\<close> that answers each call, and
  the answer may depend on every call made before. The state threaded through the
  operations is the log of the calls issued so far, oldest first. A reply is the parsed
  output, or the error text that the \<open>except\<close> branches of the source put under
  \<open>"error"\<close> (the extra \<open>"raw_output"\<close> key of the JSON error is not kept).
\<close>

datatype ipc_call = Command string | GetType string

datatype 'a reply = Ok 'a | Fail string

datatype msg_result =
    MsgOk (msg_output: string) (msg_command: string)
  | MsgFailed (msg_error: string) (msg_command: string)

fun msg_success :: "msg_result \<Rightarrow> bool" where
  "msg_success (MsgOk out c) = True"
| "msg_success (MsgFailed e c) = False"

record workspace_info =
  ws_name :: string
  ws_output :: string

record i3_env =
  on_command :: "ipc_call list \<Rightarrow> string \<Rightarrow> string reply"
  on_get_workspaces :: "ipc_call list \<Rightarrow> workspace_info list reply"
  on_get_tree :: "ipc_call list \<Rightarrow> node reply"
  set_order :: "string list \<Rightarrow> string list"

definition run_i3_msg :: "i3_env \<Rightarrow> ipc_call list \<Rightarrow> string \<Rightarrow> msg_result \<times> ipc_call list" where
  "run_i3_msg env log command =
     ((case on_command env log command of
         Ok out \<Rightarrow> MsgOk out command
       | Fail e \<Rightarrow> MsgFailed e command),
      log @ [Command command])"

text \<open>
  What an operation hands to \<open>json.dumps\<close>: a validation failure
  \<open>{"success": False, "error": ...}\<close> or the transport's result.
\<close>

datatype response = Failure string | Reply msg_result

section \<open>i3\_move\_window\<close>

datatype Direction = LEFT | RIGHT | UP | DOWN

fun direction_value :: "Direction \<Rightarrow> string" where
  "direction_value LEFT = ''left''"
| "direction_value RIGHT = ''right''"
| "direction_value UP = ''up''"
| "direction_value DOWN = ''down''"

record MoveWindowInput =
  mv_direction :: "Direction option"
  mv_position_x :: "int option"
  mv_position_y :: "int option"
  mv_center :: bool
  mv_to_mouse :: bool
  mv_to_mark :: "string option"
  mv_workspace :: "string option"

definition fmt_opt_int :: "int option \<Rightarrow> string" where
  "fmt_opt_int v = (case v of None \<Rightarrow> ''None'' | Some i \<Rightarrow> str_int i)"

text \<open>The \<open>sum([...])\<close> of four booleans.\<close>

definition position_options :: "MoveWindowInput \<Rightarrow> nat" where
  "position_options p =
     of_bool (mv_center p) + of_bool (mv_to_mouse p) + of_bool (mv_to_mark p \<noteq> None)
       + of_bool (mv_position_x p \<noteq> None \<or> mv_position_y p \<noteq> None)"

text \<open>The \<open>if/elif\<close> chain after the exclusion check: the extended command list, or the
  error text of its last branch.\<close>

definition positioning :: "MoveWindowInput \<Rightarrow> string list \<Rightarrow> string + string list" where
  \<open>positioning p commands =
     (if mv_center p then Inr (commands @ [''move position center''])
      else if mv_to_mouse p then Inr (commands @ [''move position mouse''])
      else if truthy_str (mv_to_mark p)
        then Inr (commands @ [''move window to mark "'' @ fmt_opt_str (mv_to_mark p) @ ''"''])
      else if mv_position_x p \<noteq> None \<and> mv_position_y p \<noteq> None
        then Inr (commands @ [''move position '' @ fmt_opt_int (mv_position_x p) @ '' px ''
                                @ fmt_opt_int (mv_position_y p) @ '' px''])
      else if mv_position_x p \<noteq> None \<or> mv_position_y p \<noteq> None
        then Inl ''Both position_x and position_y must be specified together.''
      else Inr commands)\<close>

definition i3_move_window :: "i3_env \<Rightarrow> ipc_call list \<Rightarrow> MoveWindowInput \<Rightarrow> response \<times> ipc_call list" where
  "i3_move_window env log p =
     (let commands =
            (if truthy_str (mv_workspace p)
             then [''move container to workspace '' @ fmt_opt_str (mv_workspace p)] else [])
            @ (case mv_direction p of None \<Rightarrow> [] | Some d \<Rightarrow> [''move '' @ direction_value d])
      in if position_options p > 1
         then (Failure ''Can only specify one positioning option: center, to_mouse, to_mark, or absolute position (position_x/position_y)'', log)
         else (case positioning p commands of
                 Inl e \<Rightarrow> (Failure e, log)
               | Inr commands' \<Rightarrow>
                   if commands' = []
                   then (Failure ''Must specify at least one move operation (direction, position, center, to_mouse, to_mark, or workspace).'', log)
                   else (let (result, log') = run_i3_msg env log (join_comma commands')
                         in (Reply result, log'))))"

section \<open>i3\_gaps\_set\<close>

datatype gaps_scope = Current | All

record GapsInput =
  gaps_inner :: "int option"
  gaps_outer :: "int option"
  gaps_scope :: gaps_scope

definition i3_gaps_set :: "i3_env \<Rightarrow> ipc_call list \<Rightarrow> GapsInput \<Rightarrow> response \<times> ipc_call list" where
  "i3_gaps_set env log p =
     (if \<not> truthy_int (gaps_inner p) \<and> \<not> truthy_int (gaps_outer p)
      then (Failure ''Must specify at least one of: inner, outer'', log)
      else
        (let scope_prefix = (if gaps_scope p = Current then ''workspace'' else ''global'');
             commands =
               (case gaps_inner p of None \<Rightarrow> []
                | Some i \<Rightarrow> [''gaps inner '' @ scope_prefix @ '' set '' @ str_int i])
               @ (case gaps_outer p of None \<Rightarrow> []
                  | Some out \<Rightarrow> [''gaps outer '' @ scope_prefix @ '' set '' @ str_int out]);
             (result, log') = run_i3_msg env log (join_comma commands)
         in (Reply result, log')))"

section \<open>i3\_mark\_set and i3\_scratchpad\_move\<close>

datatype mark_mode = Replace | Add | Toggle

record MarkSetInput =
  mark :: string
  mode :: mark_mode

definition mark_set_command :: "MarkSetInput \<Rightarrow> string" where
  \<open>mark_set_command p =
     (if mode p = Replace then ''mark --replace "'' @ mark p @ ''"''
      else if mode p = Add then ''mark --add "'' @ mark p @ ''"''
      else ''mark --toggle "'' @ mark p @ ''"'')\<close>

definition i3_mark_set :: "i3_env \<Rightarrow> ipc_call list \<Rightarrow> MarkSetInput \<Rightarrow> response \<times> ipc_call list" where
  "i3_mark_set env log p =
     (let (result, log') = run_i3_msg env log (mark_set_command p) in (Reply result, log'))"

definition i3_scratchpad_move :: "i3_env \<Rightarrow> ipc_call list \<Rightarrow> string option \<Rightarrow> response \<times> ipc_call list" where
  \<open>i3_scratchpad_move env log mark_as =
     (let commands =
            (if truthy_str mark_as then [''mark "'' @ fmt_opt_str mark_as @ ''"''] else [])
            @ [''move scratchpad''];
          (result, log') = run_i3_msg env log (join_comma commands)
      in (Reply result, log'))\<close>

section \<open>i3\_swap\_containers\<close>

record SwapContainerInput =
  target_id :: "int option"
  target_con_id :: "int option"
  target_mark :: "string option"
  source_id :: "int option"
  source_con_id :: "int option"
  source_mark :: "string option"

text \<open>
  The four dictionaries the operation can return: a validation failure, the failure of
  the focus step (with the transport's result under \<open>"focus_result"\<close>), the two-step
  summary (\<open>success\<close>, \<open>output\<close>, \<open>command\<close>, \<open>note\<close>), or the transport's result of the
  single-step form.
\<close>

datatype swap_response =
    SwapInvalid string
  | SwapFocusFailed string msg_result
  | SwapTwoStep bool string string string
  | SwapLegacy msg_result

definition target_count :: "SwapContainerInput \<Rightarrow> nat" where
  "target_count p =
     of_bool (target_id p \<noteq> None) + of_bool (target_con_id p \<noteq> None)
       + of_bool (target_mark p \<noteq> None)"

definition source_count :: "SwapContainerInput \<Rightarrow> nat" where
  "source_count p =
     of_bool (source_id p \<noteq> None) + of_bool (source_con_id p \<noteq> None)
       + of_bool (source_mark p \<noteq> None)"

definition target_criteria :: "SwapContainerInput \<Rightarrow> string" where
  \<open>target_criteria p =
     (if truthy_int (target_id p) then ''id '' @ fmt_opt_int (target_id p)
      else if truthy_int (target_con_id p) then ''con_id '' @ fmt_opt_int (target_con_id p)
      else ''mark "'' @ fmt_opt_str (target_mark p) @ ''"'')\<close>

definition source_criteria :: "SwapContainerInput \<Rightarrow> string" where
  \<open>source_criteria p =
     (if truthy_int (source_id p) then ''[id='' @ fmt_opt_int (source_id p) @ '']''
      else if truthy_int (source_con_id p)
        then ''[con_id='' @ fmt_opt_int (source_con_id p) @ '']''
      else ''[con_mark="'' @ fmt_opt_str (source_mark p) @ ''"]'')\<close>

definition i3_swap_containers ::
  "i3_env \<Rightarrow> ipc_call list \<Rightarrow> SwapContainerInput \<Rightarrow> swap_response \<times> ipc_call list" where
  "i3_swap_containers env log p =
     (if \<not> truthy_int (target_id p) \<and> \<not> truthy_int (target_con_id p)
           \<and> \<not> truthy_str (target_mark p)
      then (SwapInvalid ''Must specify one of: target_id, target_con_id, or target_mark'', log)
      else if target_count p > 1
      then (SwapInvalid ''Only specify one target parameter (target_id, target_con_id, or target_mark)'', log)
      else if source_count p > 1
      then (SwapInvalid ''Only specify one source parameter (source_id, source_con_id, or source_mark)'', log)
      else if source_count p > 0
      then
        (let focus_command = source_criteria p @ '' focus'';
             (focus_result, log1) = run_i3_msg env log focus_command
         in case focus_result of
              MsgFailed e c \<Rightarrow>
                (SwapFocusFailed (''Failed to focus source window: '' @ e) focus_result, log1)
            | MsgOk out c \<Rightarrow>
                (let swap_command = ''swap container with '' @ target_criteria p;
                     (swap_result, log2) = run_i3_msg env log1 swap_command
                 in (SwapTwoStep (msg_success swap_result)
                       (case swap_result of MsgOk out2 c2 \<Rightarrow> out2 | MsgFailed e2 c2 \<Rightarrow> ''[]'')
                       (focus_command @ ''; '' @ swap_command)
                       ''Focused source window then swapped with target'',
                     log2)))
      else
        (let command = ''swap container with '' @ target_criteria p;
             (result, log1) = run_i3_msg env log command
         in (SwapLegacy result, log1)))"

section \<open>i3\_workspace\_bulk\_move\<close>

record BulkWorkspaceMoveInput =
  workspaces :: "string list"
  target_output :: string
  preserve_workspace :: "string option"
  placeholder_workspace :: "string option"

record moved_entry =
  mv_ws :: string
  from_output :: string
  to_output :: string

text \<open>An item of \<open>failed_workspaces\<close>; \<open>"details"\<close> is present for a failed move only.\<close>

record failed_entry =
  failed_ws :: string
  reason :: string
  details :: "msg_result option"

text \<open>The dictionary returned after the loops; the counts are the lengths of the lists.\<close>

record bulk_summary =
  success :: bool
  moved_count :: nat
  failed_count :: nat
  moved_workspaces :: "moved_entry list"
  failed_workspaces :: "failed_entry list"
  preserved_workspace :: "string option"
  summary_placeholder_workspace :: "string option"

text \<open>\<open>BulkQueryFailed error details\<close> is the early return when the workspace query fails;
  \<open>details\<close> is the error text of the query's result.\<close>

datatype bulk_response = BulkQueryFailed string string | BulkDone bulk_summary

definition get_workspaces :: "i3_env \<Rightarrow> ipc_call list \<Rightarrow> workspace_info list reply \<times> ipc_call list" where
  "get_workspaces env log = (on_get_workspaces env log, log @ [GetType ''workspaces''])"

text \<open>\<open>{ws["name"]: ws for ws in current_workspaces}\<close>: a later item replaces an earlier
  one of the same name.\<close>

definition workspace_map :: "workspace_info list \<Rightarrow> string \<rightharpoonup> workspace_info" where
  "workspace_map current_workspaces = map_of (rev (map (\<lambda>ws. (ws_name ws, ws)) current_workspaces))"

text \<open>
  Step 2. \<open>source_outputs\<close> is a Python set: its members are the outputs of the listed
  workspaces that exist (the preserved one included), and the order in which the \<open>for\<close>
  loop meets them is the interpreter's, here \<open>set_order env\<close> applied to the list of the
  distinct members.
\<close>

definition source_outputs :: "i3_env \<Rightarrow> (string \<rightharpoonup> workspace_info) \<Rightarrow> string list \<Rightarrow> string list" where
  "source_outputs env wmap wss =
     set_order env (remdups (List.map_filter (\<lambda>ws_n. map_option ws_output (wmap ws_n)) wss))"

fun create_placeholders ::
  "i3_env \<Rightarrow> string \<Rightarrow> failed_entry list \<times> ipc_call list \<Rightarrow> string list
     \<Rightarrow> failed_entry list \<times> ipc_call list" where
  "create_placeholders env placeholder (failed, log) [] = (failed, log)"
| "create_placeholders env placeholder (failed, log) (source_output # rest) =
     (let (focus_result, log1) = run_i3_msg env log (''focus output '' @ source_output)
      in if \<not> msg_success focus_result
         then create_placeholders env placeholder (failed, log1) rest
         else
           (let (create_result, log2) = run_i3_msg env log1 (''workspace '' @ placeholder)
            in if \<not> msg_success create_result
               then create_placeholders env placeholder
                      (failed @ [\<lparr> failed_ws = placeholder,
                                   reason = ''Failed to create placeholder workspace'',
                                   details = None \<rparr>], log2) rest
               else create_placeholders env placeholder (failed, log2) rest))"

text \<open>Step 3: the loop over \<open>params.workspaces\<close>, with its two \<open>continue\<close> branches.\<close>

fun move_workspaces ::
  "i3_env \<Rightarrow> BulkWorkspaceMoveInput \<Rightarrow> (string \<rightharpoonup> workspace_info)
     \<Rightarrow> moved_entry list \<times> failed_entry list \<times> ipc_call list \<Rightarrow> string list
     \<Rightarrow> moved_entry list \<times> failed_entry list \<times> ipc_call list" where
  "move_workspaces env p wmap (moved, failed, log) [] = (moved, failed, log)"
| "move_workspaces env p wmap (moved, failed, log) (ws_n # rest) =
     (if truthy_str (preserve_workspace p) \<and> Some ws_n = preserve_workspace p
      then move_workspaces env p wmap (moved, failed, log) rest
      else case wmap ws_n of
        None \<Rightarrow>
          move_workspaces env p wmap
            (moved,
             failed @ [\<lparr> failed_ws = ws_n, reason = ''Workspace does not exist'',
                          details = None \<rparr>],
             log) rest
      | Some ws \<Rightarrow>
          (let command = ''workspace '' @ ws_n @ ''; move workspace to output '' @ target_output p;
               (result, log1) = run_i3_msg env log command
           in if msg_success result
              then move_workspaces env p wmap
                     (moved @ [\<lparr> mv_ws = ws_n, from_output = ws_output ws,
                                  to_output = target_output p \<rparr>],
                      failed, log1) rest
              else move_workspaces env p wmap
                     (moved,
                      failed @ [\<lparr> failed_ws = ws_n, reason = ''Move command failed'',
                                   details = Some result \<rparr>],
                      log1) rest))"

definition i3_workspace_bulk_move ::
  "i3_env \<Rightarrow> ipc_call list \<Rightarrow> BulkWorkspaceMoveInput \<Rightarrow> bulk_response \<times> ipc_call list" where
  "i3_workspace_bulk_move env log p =
     (let (ws_result, log1) = get_workspaces env log
      in case ws_result of
           Fail e \<Rightarrow> (BulkQueryFailed ''Failed to get workspace list'' e, log1)
         | Ok current_workspaces \<Rightarrow>
             (let wmap = workspace_map current_workspaces;
                  (failed2, log2) =
                    (if truthy_str (placeholder_workspace p)
                     then create_placeholders env (fmt_opt_str (placeholder_workspace p))
                            ([], log1) (source_outputs env wmap (workspaces p))
                     else ([], log1));
                  (moved, failed, log3) =
                    move_workspaces env p wmap ([], failed2, log2) (workspaces p)
              in (BulkDone \<lparr> success = True,
                             moved_count = length moved,
                             failed_count = length failed,
                             moved_workspaces = moved,
                             failed_workspaces = failed,
                             preserved_workspace = preserve_workspace p,
                             summary_placeholder_workspace = placeholder_workspace p \<rparr>,
                  log3)))"

section \<open>i3\_scratchpad\_hide\_all\<close>

record hidden_entry =
  hidden_id :: "int option"
  hidden_name :: string
  hidden_class :: string

record hide_error =
  err_window_id :: "int option"
  err_name :: string
  err_text :: string

text \<open>\<open>result_data\<close>; the key \<open>"errors"\<close> is present only when the list is not empty.\<close>

record hide_summary =
  hide_success :: bool
  hidden_count :: nat
  total_found :: nat
  windows_hidden :: "hidden_entry list"
  errors :: "hide_error list option"

datatype hide_response = HideQueryFailed string | HideNothing | HideDone hide_summary

definition get_tree :: "i3_env \<Rightarrow> ipc_call list \<Rightarrow> node reply \<times> ipc_call list" where
  "get_tree env log = (on_get_tree env log, log @ [GetType ''tree''])"

fun hide_windows ::
  "i3_env \<Rightarrow> hidden_entry list \<times> hide_error list \<times> ipc_call list \<Rightarrow> visible_window list
     \<Rightarrow> hidden_entry list \<times> hide_error list \<times> ipc_call list" where
  "hide_windows env (hidden, errs, log) [] = (hidden, errs, log)"
| "hide_windows env (hidden, errs, log) (w # rest) =
     (let (hide_result, log1) =
            run_i3_msg env log (''[id='' @ fmt_opt_int (vw_window_id w) @ ''] move scratchpad'')
      in case hide_result of
           MsgOk out c \<Rightarrow>
             hide_windows env
               (hidden @ [\<lparr> hidden_id = vw_window_id w, hidden_name = vw_name w,
                             hidden_class = vw_class w \<rparr>], errs, log1) rest
         | MsgFailed e c \<Rightarrow>
             hide_windows env
               (hidden,
                errs @ [\<lparr> err_window_id = vw_window_id w, err_name = vw_name w,
                           err_text = e \<rparr>], log1) rest)"

text \<open>The result dictionary of the JSON format; the markdown format prints the same
  counts and lists as text.\<close>

definition i3_scratchpad_hide_all :: "i3_env \<Rightarrow> ipc_call list \<Rightarrow> hide_response \<times> ipc_call list" where
  "i3_scratchpad_hide_all env log =
     (let (result, log1) = get_tree env log
      in case result of
           Fail e \<Rightarrow> (HideQueryFailed e, log1)
         | Ok tree \<Rightarrow>
             (let visible_windows = find_visible_scratchpads tree
              in if visible_windows = [] then (HideNothing, log1)
                 else
                   (let (hidden, errs, log2) = hide_windows env ([], [], log1) visible_windows
                    in (HideDone \<lparr> hide_success = (if errs \<noteq> [] then length hidden > 0 else True),
                                   hidden_count = length hidden,
                                   total_found = length visible_windows,
                                   windows_hidden = hidden,
                                   errors = (if errs \<noteq> [] then Some errs else None) \<rparr>,
                        log2))))"

section \<open>Further operations that embed a mark, a title or a workspace name\<close>

text \<open>
  The parameters of every operation are the fields of its validated input object: the
  input classes strip surrounding whitespace from each string before the operation sees
  it, and the operations embed the field as they receive it.
\<close>

definition i3_mark_unmark :: "i3_env \<Rightarrow> ipc_call list \<Rightarrow> string option \<Rightarrow> response \<times> ipc_call list" where
  \<open>i3_mark_unmark env log mark_param =
     (let command = (if truthy_str mark_param then ''unmark "'' @ fmt_opt_str mark_param @ ''"''
                     else ''unmark'');
          (result, log') = run_i3_msg env log command
      in (Reply result, log'))\<close>

definition i3_scratchpad_show :: "i3_env \<Rightarrow> ipc_call list \<Rightarrow> string option \<Rightarrow> response \<times> ipc_call list" where
  \<open>i3_scratchpad_show env log scratchpad_name =
     (let command = (if truthy_str scratchpad_name
                     then ''[title="'' @ fmt_opt_str scratchpad_name @ ''"] scratchpad show''
                     else ''scratchpad show'');
          (result, log') = run_i3_msg env log command
      in (Reply result, log'))\<close>

definition i3_workspace_switch :: "i3_env \<Rightarrow> ipc_call list \<Rightarrow> string \<Rightarrow> response \<times> ipc_call list" where
  "i3_workspace_switch env log workspace =
     (let (result, log') = run_i3_msg env log (''workspace '' @ workspace)
      in (Reply result, log'))"

definition i3_workspace_move :: "i3_env \<Rightarrow> ipc_call list \<Rightarrow> string \<Rightarrow> bool \<Rightarrow> response \<times> ipc_call list" where
  "i3_workspace_move env log workspace follow =
     (let commands = [''move container to workspace '' @ workspace]
                     @ (if follow then [''workspace '' @ workspace] else []);
          (result, log') = run_i3_msg env log (join_comma commands)
      in (Reply result, log'))"

definition i3_workspace_rename ::
  "i3_env \<Rightarrow> ipc_call list \<Rightarrow> string option \<Rightarrow> string \<Rightarrow> response \<times> ipc_call list" where
  \<open>i3_workspace_rename env log old_name new_name =
     (let command = (if truthy_str old_name
                     then ''rename workspace "'' @ fmt_opt_str old_name @ ''" to "'' @ new_name @ ''"''
                     else ''rename workspace to "'' @ new_name @ ''"'');
          (result, log') = run_i3_msg env log command
      in (Reply result, log'))\<close>

record FocusByCriteriaInput =
  fc_window_class :: "string option"
  fc_window_title :: "string option"
  fc_window_instance :: "string option"
  fc_con_mark :: "string option"
  fc_urgent :: "bool option"

text \<open>\<open>" ".join(criteria_parts)\<close>\<close>

fun join_space :: "string list \<Rightarrow> string" where
  "join_space [] = []"
| "join_space [c] = c"
| "join_space (c # d # cs) = c @ '' '' @ join_space (d # cs)"

definition i3_focus_by_criteria ::
  "i3_env \<Rightarrow> ipc_call list \<Rightarrow> FocusByCriteriaInput \<Rightarrow> response \<times> ipc_call list" where
  \<open>i3_focus_by_criteria env log p =
     (let criteria_parts =
            (if truthy_str (fc_window_class p)
             then [''class="'' @ fmt_opt_str (fc_window_class p) @ ''"''] else [])
            @ (if truthy_str (fc_window_title p)
               then [''title="'' @ fmt_opt_str (fc_window_title p) @ ''"''] else [])
            @ (if truthy_str (fc_window_instance p)
               then [''instance="'' @ fmt_opt_str (fc_window_instance p) @ ''"''] else [])
            @ (if truthy_str (fc_con_mark p)
               then [''con_mark="'' @ fmt_opt_str (fc_con_mark p) @ ''"''] else [])
            @ (case fc_urgent p of None \<Rightarrow> []
               | Some u \<Rightarrow> [''urgent='' @ (if u then ''yes'' else ''no'')])
      in if criteria_parts = []
         then (Failure ''Must specify at least one criterion'', log)
         else (let (result, log') =
                     run_i3_msg env log (''['' @ join_space criteria_parts @ ''] focus'')
               in (Reply result, log')))\<close>

subsection \<open>i3\_exec\<close>

record ExecApplicationInput =
  ex_command :: string
  ex_workspace :: "string option"
  ex_move_to_scratchpad :: bool
  ex_mark_as :: "string option"
  ex_floating :: bool
  ex_fullscreen :: bool

datatype py_error = KeyError | IndexError

text \<open>\<open>params.command.split()[0]\<close>: the first run of characters that are not white space;
  \<open>None\<close> is the \<open>IndexError\<close> of an empty split.\<close>

definition is_space :: "char \<Rightarrow> bool" where
  "is_space c = (c \<in> set [CHR 0x09, CHR 0x0A, CHR 0x0B, CHR 0x0C, CHR 0x0D,
                          CHR 0x1C, CHR 0x1D, CHR 0x1E, CHR 0x1F, CHR 0x20])"

definition first_word :: "string \<Rightarrow> string option" where
  "first_word s =
     (case dropWhile is_space s of
        [] \<Rightarrow> None
      | c # cs \<Rightarrow> Some (takeWhile (\<lambda>x. \<not> is_space x) (c # cs)))"

text \<open>
  The result dictionary: \<open>success\<close>, \<open>output\<close> (one entry per command sent), \<open>command\<close>,
  and \<open>notes\<close> and \<open>suggestion\<close> when there are notes. The list comprehension
  \<open>[r["output"] for r in result_data]\<close> reads the key \<open>"output"\<close> of the exec result,
  which a failed result does not have: a failed exec command raises \<open>KeyError\<close>, so the
  dictionary is only ever built with \<open>success\<close> true and the branch that would add
  \<open>"error"\<close> is never taken.
\<close>

record exec_summary =
  exec_success :: bool
  exec_output :: "string list"
  exec_command :: string
  exec_notes :: "string list option"
  exec_suggestion :: "string option"

datatype exec_response =
    ExecInvalid string
  | ExecWorkspaceFailed msg_result
  | ExecRaised py_error
  | ExecDone exec_summary

definition exec_notes_of :: "ExecApplicationInput \<Rightarrow> string list" where
  "exec_notes_of p =
     (if ex_floating p \<or> ex_fullscreen p \<or> ex_move_to_scratchpad p
      then [''Application launched. To apply floating/fullscreen/scratchpad settings:'']
           @ (if ex_floating p
              then [''  - Use i3_move_window or manually float the window once it appears'']
              else [])
           @ (if ex_fullscreen p
              then [''  - Run '' @ [CHR 0x27] @ ''i3-msg fullscreen toggle'' @ [CHR 0x27]
                    @ '' once window appears, or ask to make it fullscreen'']
              else [])
           @ (if ex_move_to_scratchpad p
              then [''  - Use i3_scratchpad_move to move the window to scratchpad''
                    @ (if truthy_str (ex_mark_as p)
                       then '' and mark it as '' @ [CHR 0x27] @ fmt_opt_str (ex_mark_as p)
                            @ [CHR 0x27]
                       else [])]
              else [])
      else [])"

definition exec_suggestion_of :: "ExecApplicationInput \<Rightarrow> string \<Rightarrow> string" where
  \<open>exec_suggestion_of p word =
     ''For automatic window management on launch, consider adding rules to your i3 config:\<newline>''
     @ ''  for_window [class="'' @ word @ ''"] ''
     @ (if ex_floating p then ''floating enable, '' else [])
     @ (if ex_fullscreen p then ''fullscreen enable, '' else [])
     @ (if ex_move_to_scratchpad p
        then ''move scratchpad''
             @ (if truthy_str (ex_mark_as p)
                then '', mark "'' @ fmt_opt_str (ex_mark_as p) @ ''"'' else [])
        else [])\<close>

definition i3_exec ::
  "i3_env \<Rightarrow> ipc_call list \<Rightarrow> ExecApplicationInput \<Rightarrow> exec_response \<times> ipc_call list" where
  "i3_exec env log p =
     (if truthy_str (ex_mark_as p) \<and> \<not> ex_move_to_scratchpad p
      then (ExecInvalid ''mark_as can only be used with move_to_scratchpad=true'', log)
      else
        (let (ws_step, log1) =
               (if truthy_str (ex_workspace p)
                then (let (ws_result, l) =
                            run_i3_msg env log (''workspace '' @ fmt_opt_str (ex_workspace p))
                      in (Some ws_result, l))
                else (None, log))
         in case ws_step of
              Some (MsgFailed e c) \<Rightarrow> (ExecWorkspaceFailed (MsgFailed e c), log1)
            | _ \<Rightarrow>
              (let exec_cmd = ''exec --no-startup-id '' @ ex_command p;
                   (exec_result, log2) = run_i3_msg env log1 exec_cmd
               in case exec_result of
                    MsgFailed e c \<Rightarrow> (ExecRaised KeyError, log2)
                  | MsgOk out c \<Rightarrow>
                      (let outputs = (case ws_step of Some (MsgOk ws_out ws_c) \<Rightarrow> [ws_out]
                                      | _ \<Rightarrow> []) @ [out];
                           command =
                             (if truthy_str (ex_workspace p)
                              then ''workspace '' @ fmt_opt_str (ex_workspace p) @ ''; '' @ exec_cmd
                              else exec_cmd);
                           notes = exec_notes_of p
                       in if notes = []
                          then (ExecDone \<lparr> exec_success = True, exec_output = outputs,
                                            exec_command = command, exec_notes = None,
                                            exec_suggestion = None \<rparr>, log2)
                          else (case first_word (ex_command p) of
                                  None \<Rightarrow> (ExecRaised IndexError, log2)
                                | Some word \<Rightarrow>
                                    (ExecDone \<lparr> exec_success = True, exec_output = outputs,
                                                exec_command = command, exec_notes = Some notes,
                                                exec_suggestion = Some (exec_suggestion_of p word) \<rparr>,
                                     log2))))))"

section \<open>Specification-side notions and example environments\<close>

text \<open>
  Quoting as the specification words it: the literal between double quotes, with every
  double quote inside it preceded by a backslash (the escape of i3's command grammar).
\<close>

definition spec_escape :: "string \<Rightarrow> string" where
  "spec_escape s = concat (map (\<lambda>c. if c = CHR 0x22 then [CHR 0x5C, CHR 0x22] else [c]) s)"

definition spec_quoted :: "string \<Rightarrow> string" where
  "spec_quoted s = [CHR 0x22] @ spec_escape s @ [CHR 0x22]"


text \<open>
  A window manager for the examples: it reports the given workspaces and the given tree,
  rejects exactly the listed commands and accepts every other one; sets are met in
  insertion order.
\<close>

definition scripted_env :: "workspace_info list \<Rightarrow> node \<Rightarrow> string list \<Rightarrow> i3_env" where
  \<open>scripted_env wss tree rejected =
     \<lparr> on_command = (\<lambda>log c. if c \<in> set rejected then Fail ''rejected''
                                 else Ok ''[{"success":true}]''),
       on_get_workspaces = (\<lambda>log. Ok wss),
       on_get_tree = (\<lambda>log. Ok tree),
       set_order = (\<lambda>xs. xs) \<rparr>\<close>

text \<open>A leaf with the given window identifier, name and class, and a container of the
  given scratchpad state and output around the given children.\<close>

definition leaf :: "int \<Rightarrow> string \<Rightarrow> string \<Rightarrow> node" where
  "leaf wid title cls =
     Node (Some wid) (Some title)
       (Some \<lparr> wp_class = Some cls, wp_instance = None, wp_window_role = None \<rparr>)
       (Some ''normal'') (Some ''con'') (Some False) (Some ''none'') None [] []"

definition container :: "string \<Rightarrow> string \<Rightarrow> node list \<Rightarrow> node list \<Rightarrow> node" where
  "container state out ns fs =
     Node None None None None (Some ''floating_con'') (Some False) (Some state) (Some out) ns fs"

text \<open>Example data: two workspaces on one output, a tree without windows, a tree with a
  hidden and a shown scratchpad container, and a tree with primary and floating children.\<close>

definition two_workspaces :: "workspace_info list" where
  "two_workspaces =
     [\<lparr> ws_name = ''1'', ws_output = ''eDP-1'' \<rparr>, \<lparr> ws_name = ''2'', ws_output = ''eDP-1'' \<rparr>]"

definition no_tree :: node where
  "no_tree = Node None (Some ''root'') None None (Some ''root'') None None None [] []"

definition scratchpad_tree :: node where
  "scratchpad_tree =
     Node None (Some ''root'') None None (Some ''root'') None None None []
       [container ''changed'' ''__i3'' [leaf 11 ''Notes'' ''obsidian''] [],
        container ''fresh'' ''HDMI-1'' [leaf 22 ''Terminal'' ''kitty''] []]"

definition nested_tree :: node where
  "nested_tree =
     Node None (Some ''root'') None None (Some ''root'') None None None
       [Node (Some 1) (Some ''A'') None None (Some ''con'') None None None
          [] [leaf 3 ''C'' ''c'']]
       [leaf 2 ''B'' ''b'']"

definition one_workspace :: "workspace_info list" where
  "one_workspace = [\<lparr> ws_name = ''1'', ws_output = ''eDP-1'' \<rparr>]"


section \<open>Auxiliary facts\<close>

lemmas eval_defs = i3_workspace_bulk_move_def get_workspaces_def scripted_env_def
  workspace_map_def truthy_str_def run_i3_msg_def Let_def split_def source_outputs_def
  List.map_filter_simps fmt_opt_str_def two_workspaces_def

lemma truncation_notice_length:
  "length (truncation_notice limit) = 109 + length (str_int limit)"
  by (simp add: truncation_notice_def)






lemma visit_order_list_append:
  "visit_order_list (xs @ ys) = visit_order_list xs @ visit_order_list ys"
  by (induction xs) auto

lemma find_windows_filter:
  "find_windows_recursive t criteria
     = filter (\<lambda>n. is_window n \<and> node_matches n criteria) (visit_order t)"
  "find_windows_children ts criteria
     = filter (\<lambda>n. is_window n \<and> node_matches n criteria) (visit_order_list ts)"
  by (induction t criteria and ts criteria rule: find_windows_recursive_find_windows_children.induct)
     (simp_all add: visit_order_list_append)


text \<open>The move loop passes over the preserved workspace without touching its state.\<close>

lemma move_workspaces_skip:
  assumes "preserve_workspace p = Some pw" "pw \<noteq> []"
  shows "move_workspaces env p wmap (moved, failed, log) wss
           = move_workspaces env p wmap (moved, failed, log) (filter (\<lambda>w. w \<noteq> pw) wss)"
  using assms
proof (induction wss arbitrary: moved failed log)
  case Nil
  show ?case by simp
next
  case (Cons w wss)
  show ?case
  proof (cases "w = pw")
    case True
    with Cons show ?thesis by (simp add: truthy_str_def)
  next
    case False
    with Cons show ?thesis
      by (simp add: truthy_str_def split_def Let_def split: option.splits)
  qed
qed

lemma move_workspaces_input:
  "move_workspaces env (p\<lparr>workspaces := other\<rparr>) wmap (moved, failed, log) wss
     = move_workspaces env p wmap (moved, failed, log) wss"
  by (induction wss arbitrary: moved failed log)
     (simp_all add: split_def Let_def split: option.splits)

text \<open>Every entry the move loop adds names a workspace other than the preserved one.\<close>

lemma move_workspaces_entries:
  assumes "preserve_workspace p = Some pw" "pw \<noteq> []"
    and "move_workspaces env p wmap (moved, failed, log) wss = (moved', failed', log')"
  shows "(\<forall>m \<in> set moved'. m \<in> set moved \<or> mv_ws m \<noteq> pw)
         \<and> (\<forall>f \<in> set failed'. f \<in> set failed \<or> failed_ws f \<noteq> pw)"
  using assms
proof (induction wss arbitrary: moved failed log)
  case Nil
  then show ?case by simp
next
  case (Cons w wss)
  show ?case
  proof (cases "w = pw")
    case True
    with Cons.prems
    have "move_workspaces env p wmap (moved, failed, log) wss = (moved', failed', log')"
      by (simp add: truthy_str_def)
    from Cons.IH [OF Cons.prems(1,2) this] show ?thesis .
  next
    case False
    show ?thesis
    proof (cases "wmap w")
      case None
      with False Cons.prems have
        "move_workspaces env p wmap
           (moved,
            failed @ [\<lparr> failed_ws = w, reason = ''Workspace does not exist'', details = None \<rparr>],
            log) wss
         = (moved', failed', log')"
        by (simp add: truthy_str_def)
      from Cons.IH [OF Cons.prems(1,2) this] False show ?thesis by auto
    next
      case (Some ws)
      let ?c = "''workspace '' @ w @ ''; move workspace to output '' @ target_output p"
      show ?thesis
      proof (cases "msg_success (fst (run_i3_msg env log ?c))")
        case True
        with Some False Cons.prems have
          "move_workspaces env p wmap
             (moved @ [\<lparr> mv_ws = w, from_output = ws_output ws, to_output = target_output p \<rparr>],
              failed, snd (run_i3_msg env log ?c)) wss
           = (moved', failed', log')"
          by (simp add: truthy_str_def split_def Let_def)
        from Cons.IH [OF Cons.prems(1,2) this] False show ?thesis by auto
      next
        case rejected: False
        with Some False Cons.prems have
          "move_workspaces env p wmap
             (moved,
              failed @ [\<lparr> failed_ws = w, reason = ''Move command failed'',
                           details = Some (fst (run_i3_msg env log ?c)) \<rparr>],
              snd (run_i3_msg env log ?c)) wss
           = (moved', failed', log')"
          by (simp add: truthy_str_def split_def Let_def)
        from Cons.IH [OF Cons.prems(1,2) this] False show ?thesis by auto
      qed
    qed
  qed
qed

text \<open>Every entry the placeholder step adds carries the placeholder reason.\<close>

lemma create_placeholders_entries:
  assumes "create_placeholders env ph (failed, log) outs = (failed', log')"
  shows "\<forall>f \<in> set failed'.
           f \<in> set failed \<or> reason f = ''Failed to create placeholder workspace''"
  using assms
proof (induction outs arbitrary: failed log)
  case Nil
  then show ?case by simp
next
  case (Cons out outs)
  let ?r1 = "run_i3_msg env log (''focus output '' @ out)"
  let ?r2 = "run_i3_msg env (snd ?r1) (''workspace '' @ ph)"
  show ?case
  proof (cases "msg_success (fst ?r1)")
    case False
    with Cons.prems have "create_placeholders env ph (failed, snd ?r1) outs = (failed', log')"
      by (simp add: split_def Let_def)
    from Cons.IH [OF this] show ?thesis .
  next
    case True
    show ?thesis
    proof (cases "msg_success (fst ?r2)")
      case created: True
      with True Cons.prems
      have "create_placeholders env ph (failed, snd ?r2) outs = (failed', log')"
        by (simp add: split_def Let_def)
      from Cons.IH [OF this] show ?thesis .
    next
      case False
      with True Cons.prems have
        "create_placeholders env ph
           (failed @ [\<lparr> failed_ws = ph, reason = ''Failed to create placeholder workspace'',
                        details = None \<rparr>], snd ?r2) outs = (failed', log')"
        by (simp add: split_def Let_def)
      from Cons.IH [OF this] show ?thesis by auto
    qed
  qed
qed

text \<open>The command each operation sends for a mark, a title or a workspace name.\<close>

lemma unmark_literal:
  \<open>m \<noteq> [] \<Longrightarrow> snd (i3_mark_unmark env log (Some m)) = log @ [Command (''unmark "'' @ m @ ''"'')]\<close>
  by (simp add: i3_mark_unmark_def run_i3_msg_def split_def Let_def truthy_str_def fmt_opt_str_def)

lemma move_window_mark_literal:
  \<open>m \<noteq> [] \<Longrightarrow>
   snd (i3_move_window env log
          \<lparr> mv_direction = dir, mv_position_x = None, mv_position_y = None,
            mv_center = False, mv_to_mouse = False, mv_to_mark = Some m,
            mv_workspace = None \<rparr>)
     = log @ [Command (join_comma ((case dir of None \<Rightarrow> [] | Some d \<Rightarrow> [''move '' @ direction_value d])
                                   @ [''move window to mark "'' @ m @ ''"'']))]\<close>
  by (cases dir)
     (simp_all add: i3_move_window_def position_options_def positioning_def run_i3_msg_def
        split_def Let_def truthy_str_def fmt_opt_str_def)

lemma move_window_workspace_literal:
  \<open>w \<noteq> [] \<Longrightarrow>
   snd (i3_move_window env log
          \<lparr> mv_direction = dir, mv_position_x = None, mv_position_y = None,
            mv_center = False, mv_to_mouse = False, mv_to_mark = None,
            mv_workspace = Some w \<rparr>)
     = log @ [Command (join_comma ((''move container to workspace '' @ w)
                                   # (case dir of None \<Rightarrow> [] | Some d \<Rightarrow> [''move '' @ direction_value d])))]\<close>
  by (cases dir)
     (simp_all add: i3_move_window_def position_options_def positioning_def run_i3_msg_def
        split_def Let_def truthy_str_def fmt_opt_str_def)

lemma swap_target_mark_literal:
  \<open>m \<noteq> [] \<Longrightarrow>
   snd (i3_swap_containers env log
          \<lparr> target_id = None, target_con_id = None, target_mark = Some m,
            source_id = None, source_con_id = None, source_mark = None \<rparr>)
     = log @ [Command (''swap container with mark "'' @ m @ ''"'')]\<close>
  by (simp add: i3_swap_containers_def target_count_def source_count_def target_criteria_def
        run_i3_msg_def split_def Let_def truthy_str_def truthy_int_def fmt_opt_str_def)

lemma swap_source_mark_literal:
  \<open>m \<noteq> [] \<Longrightarrow>
   snd (i3_swap_containers env log
          \<lparr> target_id = None, target_con_id = None, target_mark = Some m,
            source_id = None, source_con_id = None, source_mark = Some s \<rparr>)
     = log @ Command (''[con_mark="'' @ s @ ''"] focus'')
           # (case on_command env log (''[con_mark="'' @ s @ ''"] focus'') of
                Fail e \<Rightarrow> []
              | Ok out \<Rightarrow> [Command (''swap container with mark "'' @ m @ ''"'')])\<close>
  by (simp add: i3_swap_containers_def target_count_def source_count_def target_criteria_def
        source_criteria_def run_i3_msg_def split_def Let_def truthy_str_def truthy_int_def
        fmt_opt_str_def split: reply.splits)

lemma focus_criteria_literals:
  \<open>t \<noteq> [] \<Longrightarrow> m \<noteq> [] \<Longrightarrow>
   snd (i3_focus_by_criteria env log
          \<lparr> fc_window_class = None, fc_window_title = Some t, fc_window_instance = None,
            fc_con_mark = Some m, fc_urgent = None \<rparr>)
     = log @ [Command (''[title="'' @ t @ ''" con_mark="'' @ m @ ''"] focus'')]\<close>
  \<open>t \<noteq> [] \<Longrightarrow>
   snd (i3_focus_by_criteria env log
          \<lparr> fc_window_class = None, fc_window_title = Some t, fc_window_instance = None,
            fc_con_mark = None, fc_urgent = None \<rparr>)
     = log @ [Command (''[title="'' @ t @ ''"] focus'')]\<close>
  \<open>m \<noteq> [] \<Longrightarrow>
   snd (i3_focus_by_criteria env log
          \<lparr> fc_window_class = None, fc_window_title = None, fc_window_instance = None,
            fc_con_mark = Some m, fc_urgent = None \<rparr>)
     = log @ [Command (''[con_mark="'' @ m @ ''"] focus'')]\<close>
  by (simp_all add: i3_focus_by_criteria_def run_i3_msg_def split_def Let_def truthy_str_def
        fmt_opt_str_def)

lemma scratchpad_show_literal:
  \<open>t \<noteq> [] \<Longrightarrow>
   snd (i3_scratchpad_show env log (Some t)) = log @ [Command (''[title="'' @ t @ ''"] scratchpad show'')]\<close>
  by (simp add: i3_scratchpad_show_def run_i3_msg_def split_def Let_def truthy_str_def fmt_opt_str_def)

lemma workspace_switch_literal:
  "snd (i3_workspace_switch env log w) = log @ [Command (''workspace '' @ w)]"
  by (simp add: i3_workspace_switch_def run_i3_msg_def split_def)

lemma workspace_move_literal:
  "snd (i3_workspace_move env log w False) = log @ [Command (''move container to workspace '' @ w)]"
  "snd (i3_workspace_move env log w True)
     = log @ [Command (''move container to workspace '' @ w @ '', workspace '' @ w)]"
  by (simp_all add: i3_workspace_move_def run_i3_msg_def split_def Let_def)

lemma workspace_rename_literal:
  \<open>snd (i3_workspace_rename env log None w) = log @ [Command (''rename workspace to "'' @ w @ ''"'')]\<close>
  \<open>old \<noteq> [] \<Longrightarrow>
   snd (i3_workspace_rename env log (Some old) w)
     = log @ [Command (''rename workspace "'' @ old @ ''" to "'' @ w @ ''"'')]\<close>
  by (simp_all add: i3_workspace_rename_def run_i3_msg_def split_def Let_def truthy_str_def
        fmt_opt_str_def)

lemma exec_workspace_literal:
  \<open>w \<noteq> [] \<Longrightarrow>
   snd (i3_exec env log
          \<lparr> ex_command = cmd, ex_workspace = Some w, ex_move_to_scratchpad = sp,
            ex_mark_as = None, ex_floating = fl, ex_fullscreen = fs \<rparr>)
     = log @ Command (''workspace '' @ w)
           # (case on_command env log (''workspace '' @ w) of
                Fail e \<Rightarrow> []
              | Ok out \<Rightarrow> [Command (''exec --no-startup-id '' @ cmd)])\<close>
  by (simp add: i3_exec_def run_i3_msg_def split_def Let_def truthy_str_def fmt_opt_str_def
        split: reply.splits option.splits msg_result.splits)

lemma bulk_move_workspace_literals:
  \<open>on_get_workspaces env log = Ok [\<lparr> ws_name = w, ws_output = out \<rparr>] \<Longrightarrow>
   set_order env [out] = [out] \<Longrightarrow> ph \<noteq> [] \<Longrightarrow>
   snd (i3_workspace_bulk_move env log
          \<lparr> workspaces = [w], target_output = t, preserve_workspace = None,
            placeholder_workspace = Some ph \<rparr>)
     = log @ [GetType ''workspaces'', Command (''focus output '' @ out)]
           @ (case on_command env (log @ [GetType ''workspaces'']) (''focus output '' @ out) of
                Fail e \<Rightarrow> []
              | Ok r \<Rightarrow> [Command (''workspace '' @ ph)])
           @ [Command (''workspace '' @ w @ ''; move workspace to output '' @ t)]\<close>
  by (simp add: i3_workspace_bulk_move_def get_workspaces_def workspace_map_def
        truthy_str_def run_i3_msg_def Let_def split_def source_outputs_def
        List.map_filter_simps fmt_opt_str_def split: reply.splits)

section \<open>Bulk workspace move: the success flag (C1)\<close>

lemma bulk_move_success_constant:
  "i3_workspace_bulk_move env log p = (BulkDone r, log') \<Longrightarrow> success r"
  by (auto simp: i3_workspace_bulk_move_def Let_def split_def split: reply.splits)

text \<open>The sibling operation does lower its flag: with errors itemized, success is true
  exactly when something was hidden.\<close>

lemma hide_all_success_flag:
  "i3_scratchpad_hide_all env log = (HideDone r, log') \<Longrightarrow>
     hide_success r = (errors r = None \<or> 0 < hidden_count r)"
  by (auto simp: i3_scratchpad_hide_all_def Let_def split_def split: reply.splits if_splits)

lemma hide_all_all_failed:
  \<open>fst (i3_scratchpad_hide_all (scripted_env [] scratchpad_tree [''[id=22] move scratchpad'']) [])
   = HideDone \<lparr> hide_success = False, hidden_count = 0, total_found = 1, windows_hidden = [],
       errors = Some [\<lparr> err_window_id = Some 22, err_name = ''Terminal'',
                        err_text = ''rejected'' \<rparr>] \<rparr>\<close>
  by (simp add: i3_scratchpad_hide_all_def get_tree_def scripted_env_def scratchpad_tree_def
        container_def leaf_def is_visible_scratchpad_def truthy_str_def truthy_int_def
        visible_record_def get_or_def window_prop_def run_i3_msg_def fmt_opt_int_def
        str_int_def str_nat.simps digit_def Let_def split_def)

text \<open>
  C1: the claim says that \<open>i3_workspace_bulk_move\<close>, when a failure is itemized, returns
  \<open>success\<close> true if and only if at least one workspace was moved, so \<open>success\<close> false when
  every attempted item fails. The code returns the constant \<open>True\<close>: asked to move
  workspace \<open>1\<close>, whose move command i3 rejects, and workspace \<open>7\<close>, which does not exist,
  it itemizes both failures, counts zero moved workspaces and still reports
  \<open>success = True\<close>.
\<close>

theorem bulk_move_all_failed_reports_success:
  \<open>i3_workspace_bulk_move
     (scripted_env two_workspaces no_tree [''workspace 1; move workspace to output DP-1'']) []
     \<lparr> workspaces = [''1'', ''7''], target_output = ''DP-1'',
       preserve_workspace = None, placeholder_workspace = None \<rparr>
   = (BulkDone \<lparr> success = True, moved_count = 0, failed_count = 2,
        moved_workspaces = [],
        failed_workspaces =
          [\<lparr> failed_ws = ''1'', reason = ''Move command failed'',
              details = Some (MsgFailed ''rejected''
                               ''workspace 1; move workspace to output DP-1'') \<rparr>,
           \<lparr> failed_ws = ''7'', reason = ''Workspace does not exist'', details = None \<rparr>],
        preserved_workspace = None, summary_placeholder_workspace = None \<rparr>,
      [GetType ''workspaces'', Command ''workspace 1; move workspace to output DP-1''])\<close>
  by (simp add: eval_defs)

section \<open>Move window: exclusive positioning options (C2)\<close>

text \<open>
  C2: whenever more than one of the positioning options center, to\_mouse, to\_mark and
  absolute position (position\_x or position\_y) is set, \<open>i3_move_window\<close> returns the
  validation failure and leaves the call log as it was: no transport call is made,
  whatever the workspace and direction parameters are.
\<close>

theorem move_window_exclusive:
  assumes "1 < (of_bool (mv_center p) :: nat) + of_bool (mv_to_mouse p)
                 + of_bool (mv_to_mark p \<noteq> None)
                 + of_bool (mv_position_x p \<noteq> None \<or> mv_position_y p \<noteq> None)"
  shows "i3_move_window env log p =
           (Failure ''Can only specify one positioning option: center, to_mouse, to_mark, or absolute position (position_x/position_y)'', log)"
  using assms by (simp add: i3_move_window_def position_options_def Let_def)

theorem move_window_exclusive_witness:
  "1 < (of_bool True :: nat) + of_bool True + of_bool ((None :: string option) \<noteq> None)
         + of_bool ((None :: int option) \<noteq> None \<or> (None :: int option) \<noteq> None)
   \<and> i3_move_window (scripted_env [] no_tree []) []
       \<lparr> mv_direction = Some LEFT, mv_position_x = None, mv_position_y = None,
         mv_center = True, mv_to_mouse = True, mv_to_mark = None, mv_workspace = Some ''2'' \<rparr>
     = (Failure ''Can only specify one positioning option: center, to_mouse, to_mark, or absolute position (position_x/position_y)'', [])"
  using move_window_exclusive
    [of "\<lparr> mv_direction = Some LEFT, mv_position_x = None, mv_position_y = None,
           mv_center = True, mv_to_mouse = True, mv_to_mark = None, mv_workspace = Some ''2'' \<rparr>"
        "scripted_env [] no_tree []" "[]"]
  by simp

section \<open>Visible scratchpad windows (C3)\<close>




section \<open>The criteria matcher (C4)\<close>



section \<open>All windows in visitation order (C5)\<close>

text \<open>
  C5 (as stated, refuted): the claim takes the window-bearing nodes to be the nodes with a
  non-null window identifier. The source's test is
  \<open>node.get("window") and node.get("window") != 0\<close>: a node whose identifier is \<open>0\<close>, which
  is not null, is left out.
\<close>

theorem find_windows_zero_id:
  "window (leaf 0 ''x'' ''y'') = Some 0 \<and> find_windows_recursive (leaf 0 ''x'' ''y'') [] = []"
  by (simp add: leaf_def is_window_def truthy_int_def)

text \<open>
  C5 (amended): for every tree, \<open>find_windows_recursive\<close> with empty criteria returns
  exactly the nodes whose window identifier is neither null nor \<open>0\<close>, in depth-first
  visitation order, a node before its children and its primary children before its
  floating children; nothing else orders the result.
\<close>

theorem find_windows_all:
  "find_windows_recursive t [] =
     filter (\<lambda>n. window n \<noteq> None \<and> window n \<noteq> Some 0) (visit_order t)"
proof -
  have "is_window n \<and> node_matches n [] \<longleftrightarrow> window n \<noteq> None \<and> window n \<noteq> Some 0" for n
    by (auto simp: is_window_def node_matches_def truthy_int_def split: option.splits)
  then show ?thesis by (simp add: find_windows_filter(1))
qed

theorem find_windows_all_witness:
  "find_windows_recursive nested_tree [] =
     [Node (Some 1) (Some ''A'') None None (Some ''con'') None None None [] [leaf 3 ''C'' ''c''],
      leaf 3 ''C'' ''c'', leaf 2 ''B'' ''b'']"
  using find_windows_all [of nested_tree]
  by (simp add: nested_tree_def leaf_def)

section \<open>Swap with an explicit source (C6)\<close>

text \<open>For a target that passes validation and one source parameter, the focus command
  comes first and the swap command follows only a successful focus; without a source
  parameter the swap command is the only one.\<close>

lemma swap_focus_then_swap:
  assumes "target_count p = 1"
    and "truthy_int (target_id p) \<or> truthy_int (target_con_id p) \<or> truthy_str (target_mark p)"
    and "source_count p = 1"
  shows "i3_swap_containers env log p =
           (case on_command env log (source_criteria p @ '' focus'') of
              Fail e \<Rightarrow>
                (SwapFocusFailed (''Failed to focus source window: '' @ e)
                   (MsgFailed e (source_criteria p @ '' focus'')),
                 log @ [Command (source_criteria p @ '' focus'')])
            | Ok out \<Rightarrow>
                (fst (i3_swap_containers env log p),
                 log @ [Command (source_criteria p @ '' focus''),
                        Command (''swap container with '' @ target_criteria p)]))"
  using assms
  by (auto simp: i3_swap_containers_def run_i3_msg_def Let_def split_def split: reply.splits)

lemma swap_legacy_single_command:
  assumes "target_count p = 1"
    and "truthy_int (target_id p) \<or> truthy_int (target_con_id p) \<or> truthy_str (target_mark p)"
    and "source_count p = 0"
  shows "snd (i3_swap_containers env log p)
           = log @ [Command (''swap container with '' @ target_criteria p)]"
  using assms
  by (auto simp: i3_swap_containers_def run_i3_msg_def Let_def split_def)

text \<open>The selector of a non-zero identifier, or of a mark, names what was given.\<close>

lemma source_criteria_given:
  \<open>i \<noteq> 0 \<Longrightarrow> source_criteria (p\<lparr>source_id := Some i\<rparr>) = ''[id='' @ str_int i @ '']''\<close>
  \<open>i \<noteq> 0 \<Longrightarrow> source_id p = None \<Longrightarrow>
     source_criteria (p\<lparr>source_con_id := Some i\<rparr>) = ''[con_id='' @ str_int i @ '']''\<close>
  \<open>source_id p = None \<Longrightarrow> source_con_id p = None \<Longrightarrow> source_mark p = Some m \<Longrightarrow>
     source_criteria p = ''[con_mark="'' @ m @ ''"]''\<close>
  by (simp_all add: source_criteria_def truthy_int_def fmt_opt_int_def fmt_opt_str_def)

text \<open>
  C6: the claim says that with a valid target and exactly one source parameter given the
  first command is a focus command built from the source selector. The source counts a
  parameter as given when it is not \<open>None\<close> but picks the selector by truthiness: with
  \<open>source_id = 0\<close> and \<open>target_id = 5\<close> the count is one, both identifier branches are
  skipped, and the mark branch formats the absent \<open>source_mark\<close>. The focus command sent is
  \<open>[con_mark="None"] focus\<close>, not one built from the given source, and the swap follows.
\<close>

theorem swap_source_zero:
  \<open>i3_swap_containers (scripted_env [] no_tree []) []
     \<lparr> target_id = Some 5, target_con_id = None, target_mark = None,
       source_id = Some 0, source_con_id = None, source_mark = None \<rparr>
   = (SwapTwoStep True ''[{"success":true}]''
        ''[con_mark="None"] focus; swap container with id 5''
        ''Focused source window then swapped with target'',
      [Command ''[con_mark="None"] focus'', Command ''swap container with id 5''])\<close>
  by (simp add: i3_swap_containers_def target_count_def source_count_def truthy_int_def
        truthy_str_def source_criteria_def target_criteria_def fmt_opt_str_def fmt_opt_int_def
        str_int_def str_nat.simps digit_def run_i3_msg_def scripted_env_def Let_def split_def)

section \<open>Literals in commands (C7)\<close>

text \<open>
  C7 (as stated, refuted): the claim says every embedded mark name, title and workspace
  name is wrapped in quotes, with a quote character inside the literal escaped, so that
  the literal cannot change the structure of the command. For the mark
  \<open>a", kill, mark "b\<close> the command sent by \<open>i3_mark_set\<close> is the three-unit command
  \<open>mark --replace "a", kill, mark "b"\<close>, not the command with the escaped literal; and
  \<open>i3_workspace_switch\<close> sends the workspace name \<open>2\<close> without quotes.
\<close>

theorem literal_not_quoted_or_escaped:
  \<open>snd (i3_mark_set (scripted_env [] no_tree []) []
          \<lparr> mark = ''a", kill, mark "b'', mode = Replace \<rparr>)
     = [Command (join_comma [''mark --replace "a"'', ''kill'', ''mark "b"''])]
   \<and> mark_set_command \<lparr> mark = ''a", kill, mark "b'', mode = Replace \<rparr>
       \<noteq> ''mark --replace '' @ spec_quoted ''a", kill, mark "b''
   \<and> snd (i3_workspace_switch (scripted_env [] no_tree []) [] ''2'') = [Command ''workspace 2'']
   \<and> ''workspace 2'' \<noteq> ''workspace '' @ spec_quoted ''2''\<close>
  by (simp add: i3_mark_set_def mark_set_command_def i3_workspace_switch_def run_i3_msg_def
        split_def spec_quoted_def spec_escape_def)

text \<open>
  C7 (amended): every mark name and every title that an operation embeds in a command is
  the field of the validated input (surrounding whitespace already stripped by the input
  class), wrapped in double quotes, with no character inside it escaped: the mark in
  \<open>i3_mark_set\<close>, \<open>i3_mark_unmark\<close>, \<open>i3_scratchpad_move\<close>, \<open>i3_move_window\<close>,
  \<open>i3_swap_containers\<close> (target and source) and \<open>i3_focus_by_criteria\<close>, and the title in
  \<open>i3_focus_by_criteria\<close> and \<open>i3_scratchpad_show\<close>. A workspace name is embedded without
  escaping as well; \<open>i3_workspace_rename\<close> wraps it in double quotes, and
  \<open>i3_move_window\<close>, \<open>i3_exec\<close>, \<open>i3_workspace_switch\<close>, \<open>i3_workspace_move\<close> and
  \<open>i3_workspace_bulk_move\<close> embed it without quotes. So a literal that contains a double
  quote can change the structure of the command.
\<close>

theorem literals_embedded_unescaped:
  \<open>(mode p = Replace \<longrightarrow>
      snd (i3_mark_set env log p) = log @ [Command (''mark --replace "'' @ mark p @ ''"'')])
   \<and> (mode p = Add \<longrightarrow>
      snd (i3_mark_set env log p) = log @ [Command (''mark --add "'' @ mark p @ ''"'')])
   \<and> (mode p = Toggle \<longrightarrow>
      snd (i3_mark_set env log p) = log @ [Command (''mark --toggle "'' @ mark p @ ''"'')])
   \<and> (lit \<noteq> [] \<longrightarrow>
      snd (i3_mark_unmark env log (Some lit)) = log @ [Command (''unmark "'' @ lit @ ''"'')])
   \<and> (lit \<noteq> [] \<longrightarrow>
      snd (i3_scratchpad_move env log (Some lit))
        = log @ [Command (''mark "'' @ lit @ ''", move scratchpad'')])
   \<and> (lit \<noteq> [] \<longrightarrow>
      snd (i3_move_window env log
             \<lparr> mv_direction = dir, mv_position_x = None, mv_position_y = None,
               mv_center = False, mv_to_mouse = False, mv_to_mark = Some lit,
               mv_workspace = None \<rparr>)
        = log @ [Command (join_comma
                   ((case dir of None \<Rightarrow> [] | Some d \<Rightarrow> [''move '' @ direction_value d])
                    @ [''move window to mark "'' @ lit @ ''"'']))])
   \<and> (lit \<noteq> [] \<longrightarrow>
      snd (i3_swap_containers env log
             \<lparr> target_id = None, target_con_id = None, target_mark = Some lit,
               source_id = None, source_con_id = None, source_mark = None \<rparr>)
        = log @ [Command (''swap container with mark "'' @ lit @ ''"'')])
   \<and> (lit \<noteq> [] \<longrightarrow>
      snd (i3_swap_containers env log
             \<lparr> target_id = None, target_con_id = None, target_mark = Some lit,
               source_id = None, source_con_id = None, source_mark = Some src \<rparr>)
        = log @ Command (''[con_mark="'' @ src @ ''"] focus'')
              # (case on_command env log (''[con_mark="'' @ src @ ''"] focus'') of
                   Fail e \<Rightarrow> []
                 | Ok r \<Rightarrow> [Command (''swap container with mark "'' @ lit @ ''"'')]))
   \<and> (lit \<noteq> [] \<longrightarrow>
      snd (i3_focus_by_criteria env log
             \<lparr> fc_window_class = None, fc_window_title = None, fc_window_instance = None,
               fc_con_mark = Some lit, fc_urgent = None \<rparr>)
        = log @ [Command (''[con_mark="'' @ lit @ ''"] focus'')])
   \<and> (lit \<noteq> [] \<longrightarrow>
      snd (i3_focus_by_criteria env log
             \<lparr> fc_window_class = None, fc_window_title = Some lit, fc_window_instance = None,
               fc_con_mark = None, fc_urgent = None \<rparr>)
        = log @ [Command (''[title="'' @ lit @ ''"] focus'')])
   \<and> (lit \<noteq> [] \<longrightarrow>
      snd (i3_scratchpad_show env log (Some lit))
        = log @ [Command (''[title="'' @ lit @ ''"] scratchpad show'')])
   \<and> (lit \<noteq> [] \<longrightarrow>
      snd (i3_move_window env log
             \<lparr> mv_direction = dir, mv_position_x = None, mv_position_y = None,
               mv_center = False, mv_to_mouse = False, mv_to_mark = None,
               mv_workspace = Some lit \<rparr>)
        = log @ [Command (join_comma
                   ((''move container to workspace '' @ lit)
                    # (case dir of None \<Rightarrow> [] | Some d \<Rightarrow> [''move '' @ direction_value d])))])
   \<and> (lit \<noteq> [] \<longrightarrow>
      snd (i3_exec env log
             \<lparr> ex_command = cmd, ex_workspace = Some lit, ex_move_to_scratchpad = sp,
               ex_mark_as = None, ex_floating = fl, ex_fullscreen = fs \<rparr>)
        = log @ Command (''workspace '' @ lit)
              # (case on_command env log (''workspace '' @ lit) of
                   Fail e \<Rightarrow> []
                 | Ok r \<Rightarrow> [Command (''exec --no-startup-id '' @ cmd)]))
   \<and> snd (i3_workspace_switch env log lit) = log @ [Command (''workspace '' @ lit)]
   \<and> snd (i3_workspace_move env log lit False)
        = log @ [Command (''move container to workspace '' @ lit)]
   \<and> snd (i3_workspace_move env log lit True)
        = log @ [Command (''move container to workspace '' @ lit @ '', workspace '' @ lit)]
   \<and> (on_get_workspaces env log = Ok [\<lparr> ws_name = lit, ws_output = out \<rparr>]
        \<and> set_order env [out] = [out] \<and> ph \<noteq> [] \<longrightarrow>
      snd (i3_workspace_bulk_move env log
             \<lparr> workspaces = [lit], target_output = tgt, preserve_workspace = None,
               placeholder_workspace = Some ph \<rparr>)
        = log @ [GetType ''workspaces'', Command (''focus output '' @ out)]
              @ (case on_command env (log @ [GetType ''workspaces'']) (''focus output '' @ out) of
                   Fail e \<Rightarrow> []
                 | Ok r \<Rightarrow> [Command (''workspace '' @ ph)])
              @ [Command (''workspace '' @ lit @ ''; move workspace to output '' @ tgt)])
   \<and> snd (i3_workspace_rename env log None lit)
        = log @ [Command (''rename workspace to "'' @ lit @ ''"'')]
   \<and> (old \<noteq> [] \<longrightarrow>
      snd (i3_workspace_rename env log (Some old) lit)
        = log @ [Command (''rename workspace "'' @ old @ ''" to "'' @ lit @ ''"'')])\<close>
proof -
  have marks: \<open>snd (i3_mark_set env log p) =
      log @ [Command ((if mode p = Replace then ''mark --replace "''
                       else if mode p = Add then ''mark --add "'' else ''mark --toggle "'')
                      @ mark p @ ''"'')]\<close>
    by (simp add: i3_mark_set_def mark_set_command_def run_i3_msg_def split_def)
  have scratch: \<open>lit \<noteq> [] \<Longrightarrow> snd (i3_scratchpad_move env log (Some lit))
        = log @ [Command (''mark "'' @ lit @ ''", move scratchpad'')]\<close>
    by (simp add: i3_scratchpad_move_def run_i3_msg_def split_def Let_def truthy_str_def
          fmt_opt_str_def)
  show ?thesis
    using marks scratch
      unmark_literal [of lit env log]
      move_window_mark_literal [of lit env log dir]
      swap_target_mark_literal [of lit env log]
      swap_source_mark_literal [of lit env log src]
      focus_criteria_literals(2,3) [of lit env log]
      scratchpad_show_literal [of lit env log]
      move_window_workspace_literal [of lit env log dir]
      exec_workspace_literal [of lit env log cmd sp fl fs]
      workspace_switch_literal [of env log lit]
      workspace_move_literal [of env log lit]
      bulk_move_workspace_literals [of env log lit out ph tgt]
      workspace_rename_literal(1) [of env log lit]
      workspace_rename_literal(2) [of old env log lit]
    by (cases "mode p") simp_all
qed

theorem literals_embedded_unescaped_witness:
  \<open>''1'' \<noteq> [] \<and> ''9'' \<noteq> [] \<and> ''old'' \<noteq> []
   \<and> mode \<lparr> mark = ''terminal'', mode = Replace \<rparr> = Replace
   \<and> mode \<lparr> mark = ''important'', mode = Add \<rparr> = Add
   \<and> mode \<lparr> mark = ''sticky'', mode = Toggle \<rparr> = Toggle
   \<and> on_get_workspaces (scripted_env one_workspace no_tree []) []
       = Ok [\<lparr> ws_name = ''1'', ws_output = ''eDP-1'' \<rparr>]
   \<and> set_order (scripted_env one_workspace no_tree []) [''eDP-1''] = [''eDP-1'']
   \<and> snd (i3_mark_set (scripted_env one_workspace no_tree []) []
            \<lparr> mark = ''terminal'', mode = Replace \<rparr>)
       = [Command ''mark --replace "terminal"'']
   \<and> snd (i3_mark_set (scripted_env one_workspace no_tree []) []
            \<lparr> mark = ''important'', mode = Add \<rparr>)
       = [Command ''mark --add "important"'']
   \<and> snd (i3_mark_set (scripted_env one_workspace no_tree []) []
            \<lparr> mark = ''sticky'', mode = Toggle \<rparr>)
       = [Command ''mark --toggle "sticky"'']
   \<and> snd (i3_mark_unmark (scripted_env one_workspace no_tree []) [] (Some ''1''))
       = [Command ''unmark "1"'']
   \<and> snd (i3_scratchpad_move (scripted_env one_workspace no_tree []) [] (Some ''1''))
       = [Command ''mark "1", move scratchpad'']
   \<and> snd (i3_focus_by_criteria (scripted_env one_workspace no_tree []) []
            \<lparr> fc_window_class = None, fc_window_title = Some ''1'', fc_window_instance = None,
              fc_con_mark = None, fc_urgent = None \<rparr>)
       = [Command ''[title="1"] focus'']
   \<and> snd (i3_scratchpad_show (scripted_env one_workspace no_tree []) [] (Some ''1''))
       = [Command ''[title="1"] scratchpad show'']
   \<and> snd (i3_swap_containers (scripted_env one_workspace no_tree []) []
            \<lparr> target_id = None, target_con_id = None, target_mark = Some ''1'',
              source_id = None, source_con_id = None, source_mark = Some ''src'' \<rparr>)
       = [Command ''[con_mark="src"] focus'', Command ''swap container with mark "1"'']
   \<and> snd (i3_move_window (scripted_env one_workspace no_tree []) []
            \<lparr> mv_direction = Some LEFT, mv_position_x = None, mv_position_y = None,
              mv_center = False, mv_to_mouse = False, mv_to_mark = None,
              mv_workspace = Some ''1'' \<rparr>)
       = [Command ''move container to workspace 1, move left'']
   \<and> snd (i3_exec (scripted_env one_workspace no_tree []) []
            \<lparr> ex_command = ''kitty'', ex_workspace = Some ''1'', ex_move_to_scratchpad = False,
              ex_mark_as = None, ex_floating = False, ex_fullscreen = False \<rparr>)
       = [Command ''workspace 1'', Command ''exec --no-startup-id kitty'']
   \<and> snd (i3_workspace_switch (scripted_env one_workspace no_tree []) [] ''1'')
       = [Command ''workspace 1'']
   \<and> snd (i3_workspace_move (scripted_env one_workspace no_tree []) [] ''1'' True)
       = [Command ''move container to workspace 1, workspace 1'']
   \<and> snd (i3_workspace_bulk_move (scripted_env one_workspace no_tree []) []
            \<lparr> workspaces = [''1''], target_output = ''DP-1'', preserve_workspace = None,
              placeholder_workspace = Some ''9'' \<rparr>)
       = [GetType ''workspaces'', Command ''focus output eDP-1'', Command ''workspace 9'',
          Command ''workspace 1; move workspace to output DP-1'']
   \<and> snd (i3_workspace_rename (scripted_env one_workspace no_tree []) [] (Some ''old'') ''1'')
       = [Command ''rename workspace "old" to "1"'']\<close>
  using literals_embedded_unescaped
          [where p = "\<lparr> mark = ''terminal'', mode = Replace \<rparr>" and lit = "''1''"
             and env = "scripted_env one_workspace no_tree []" and log = "[]"
             and dir = "Some LEFT" and src = "''src''" and cmd = "''kitty''" and sp = False
             and fl = False and fs = False and out = "''eDP-1''" and ph = "''9''"
             and tgt = "''DP-1''" and old = "''old''"]
        literals_embedded_unescaped
          [where p = "\<lparr> mark = ''important'', mode = Add \<rparr>" and lit = "''1''"
             and env = "scripted_env one_workspace no_tree []" and log = "[]"
             and dir = "Some LEFT" and src = "''src''" and cmd = "''kitty''" and sp = False
             and fl = False and fs = False and out = "''eDP-1''" and ph = "''9''"
             and tgt = "''DP-1''" and old = "''old''"]
        literals_embedded_unescaped
          [where p = "\<lparr> mark = ''sticky'', mode = Toggle \<rparr>" and lit = "''1''"
             and env = "scripted_env one_workspace no_tree []" and log = "[]"
             and dir = "Some LEFT" and src = "''src''" and cmd = "''kitty''" and sp = False
             and fl = False and fs = False and out = "''eDP-1''" and ph = "''9''"
             and tgt = "''DP-1''" and old = "''old''"]
  by (simp add: scripted_env_def one_workspace_def)

section \<open>Truncation (C8)\<close>

text \<open>
  C8 (as stated, refuted): the claim's last part says the returned text never exceeds the
  limit. A text of four characters cut at limit 3 comes back longer than 3, because the
  notice is appended after the cut.
\<close>

theorem truncate_response_exceeds_limit:
  "\<not> int (length (truncate_response ''abcd'' 3)) \<le> 3"
  by (simp add: truncate_response_def slice_to_def truncation_notice_length)

text \<open>
  C8 (amended): for every text and every non-negative limit, \<open>truncate_response\<close> returns
  the text unchanged when its length is at most the limit, and otherwise exactly the first
  \<open>limit\<close> characters followed by the notice, which depends on the limit only (it quotes
  the limit's decimal numeral); no other cut position is tried. What the limit bounds is
  the kept content; the returned length is at most the limit plus the length of the
  notice. The default limit is 25000.
\<close>

theorem truncate_response_cut:
  assumes "0 \<le> limit"
  shows "truncate_response content limit =
           (if length content \<le> nat limit then content
            else take (nat limit) content @ truncation_notice limit)
         \<and> length (take (nat limit) content) \<le> nat limit
         \<and> length (truncate_response content limit)
             \<le> nat limit + length (truncation_notice limit)
         \<and> CHARACTER_LIMIT = 25000"
proof -
  have eq: "truncate_response content limit =
           (if length content \<le> nat limit then content
            else take (nat limit) content @ truncation_notice limit)"
    using assms by (auto simp: truncate_response_def slice_to_def)
  have "length (truncate_response content limit)
          \<le> nat limit + length (truncation_notice limit)"
    unfolding eq by simp
  with eq show ?thesis by (simp add: CHARACTER_LIMIT_def)
qed

theorem truncate_response_cut_witness:
  "(0::int) \<le> 3
   \<and> truncate_response ''abcd'' 3 = ''abc'' @ truncation_notice 3
   \<and> truncate_response ''abc'' 3 = ''abc''
   \<and> length (truncate_response ''abcd'' 3) \<le> 3 + length (truncation_notice 3)"
  using truncate_response_cut [of 3 "''abcd''"] truncate_response_cut [of 3 "''abc''"]
  by simp

section \<open>Bulk workspace move: the preserved workspace (C9)\<close>

text \<open>
  C9 (as stated, refuted): the claim says a listed workspace equal to
  \<open>preserve_workspace\<close> has no transport command issued for it and appears in neither list.
  When the same name is also the placeholder, the placeholder step sends
  \<open>workspace 2\<close> for it, and when i3 rejects that command the name is itemized in
  \<open>failed_workspaces\<close>.
\<close>

theorem bulk_move_preserved_reported:
  \<open>i3_workspace_bulk_move (scripted_env two_workspaces no_tree [''workspace 2'']) []
     \<lparr> workspaces = [''1'', ''2''], target_output = ''DP-1'',
       preserve_workspace = Some ''2'', placeholder_workspace = Some ''2'' \<rparr>
   = (BulkDone \<lparr> success = True, moved_count = 1, failed_count = 1,
        moved_workspaces = [\<lparr> mv_ws = ''1'', from_output = ''eDP-1'', to_output = ''DP-1'' \<rparr>],
        failed_workspaces = [\<lparr> failed_ws = ''2'',
                                reason = ''Failed to create placeholder workspace'',
                                details = None \<rparr>],
        preserved_workspace = Some ''2'', summary_placeholder_workspace = Some ''2'' \<rparr>,
      [GetType ''workspaces'', Command ''focus output eDP-1'', Command ''workspace 2'',
       Command ''workspace 1; move workspace to output DP-1''])\<close>
  by (simp add: eval_defs)

text \<open>
  C9 (amended): for a non-empty \<open>preserve_workspace\<close>, the move loop treats the input
  list as if the preserved workspace were not in it: it sends no command for it and
  records nothing for it. When no placeholder workspace is given, the whole operation
  (result and commands sent) is the one for the list without it. In every case it is
  not in \<open>moved_workspaces\<close>, and an item of \<open>failed_workspaces\<close> that names it is a failed
  placeholder creation. With workspaces \<open>1\<close> and \<open>2\<close>, target \<open>DP-1\<close> and \<open>2\<close> preserved,
  \<open>1\<close> is reported moved and \<open>2\<close> nowhere.
\<close>

theorem bulk_move_skips_preserved:
  assumes "preserve_workspace p = Some pw" and "pw \<noteq> []"
  shows "move_workspaces env p wmap (moved, failed, log) (workspaces p)
           = move_workspaces env p wmap (moved, failed, log)
               (filter (\<lambda>w. w \<noteq> pw) (workspaces p))
         \<and> (\<not> truthy_str (placeholder_workspace p) \<longrightarrow>
              i3_workspace_bulk_move env log p
                = i3_workspace_bulk_move env log
                    (p\<lparr>workspaces := filter (\<lambda>w. w \<noteq> pw) (workspaces p)\<rparr>))
         \<and> (\<forall>r log'. i3_workspace_bulk_move env log p = (BulkDone r, log') \<longrightarrow>
                pw \<notin> mv_ws ` set (moved_workspaces r)
                \<and> (\<forall>f \<in> set (failed_workspaces r).
                      failed_ws f = pw \<longrightarrow>
                      reason f = ''Failed to create placeholder workspace''))"
proof -
  have skip: "move_workspaces env p wmap (moved, failed, log) (workspaces p)
           = move_workspaces env p wmap (moved, failed, log)
               (filter (\<lambda>w. w \<noteq> pw) (workspaces p))"
    by (rule move_workspaces_skip [OF assms])
  have same: "i3_workspace_bulk_move env log p
                = i3_workspace_bulk_move env log
                    (p\<lparr>workspaces := filter (\<lambda>w. w \<noteq> pw) (workspaces p)\<rparr>)"
    if "\<not> truthy_str (placeholder_workspace p)"
    using that
    by (simp add: i3_workspace_bulk_move_def Let_def split_def move_workspaces_input
          move_workspaces_skip [OF assms, symmetric] split: reply.splits)
  have lists: "pw \<notin> mv_ws ` set (moved_workspaces r)
                \<and> (\<forall>f \<in> set (failed_workspaces r).
                      failed_ws f = pw \<longrightarrow>
                      reason f = ''Failed to create placeholder workspace'')"
    if run: "i3_workspace_bulk_move env log p = (BulkDone r, log')" for r log'
  proof -
    obtain wss where q: "on_get_workspaces env log = Ok wss"
      using run by (cases "on_get_workspaces env log")
        (auto simp: i3_workspace_bulk_move_def get_workspaces_def)
    define log1 where "log1 = log @ [GetType ''workspaces'']"
    define step2 where "step2 =
       (if truthy_str (placeholder_workspace p)
        then create_placeholders env (fmt_opt_str (placeholder_workspace p))
               ([], log1) (source_outputs env (workspace_map wss) (workspaces p))
        else ([], log1))"
    define step3 where "step3 =
       move_workspaces env p (workspace_map wss) ([], fst step2, snd step2) (workspaces p)"
    have r: "moved_workspaces r = fst step3" "failed_workspaces r = fst (snd step3)"
      using run q
      by (auto simp: i3_workspace_bulk_move_def get_workspaces_def Let_def split_def
            step3_def step2_def log1_def)
    have f2: "\<forall>f \<in> set (fst step2). reason f = ''Failed to create placeholder workspace''"
    proof (cases "truthy_str (placeholder_workspace p)")
      case True
      then have "create_placeholders env (fmt_opt_str (placeholder_workspace p))
               ([], log1) (source_outputs env (workspace_map wss) (workspaces p))
                 = (fst step2, snd step2)"
        by (simp add: step2_def)
      from create_placeholders_entries [OF this] show ?thesis by simp
    next
      case False
      then show ?thesis by (simp add: step2_def)
    qed
    have "move_workspaces env p (workspace_map wss) ([], fst step2, snd step2) (workspaces p)
            = (fst step3, fst (snd step3), snd (snd step3))"
      by (simp add: step3_def)
    from move_workspaces_entries [OF assms this]
    have m: "\<forall>m \<in> set (fst step3). mv_ws m \<noteq> pw"
      and f: "\<forall>f \<in> set (fst (snd step3)). f \<in> set (fst step2) \<or> failed_ws f \<noteq> pw"
      by auto
    show ?thesis using m f f2 r by auto
  qed
  show ?thesis using skip same lists by blast
qed

theorem bulk_move_skips_preserved_witness:
  \<open>preserve_workspace \<lparr> workspaces = [''1'', ''2''], target_output = ''DP-1'',
       preserve_workspace = Some ''2'', placeholder_workspace = None \<rparr> = Some ''2''
   \<and> ''2'' \<noteq> []
   \<and> i3_workspace_bulk_move (scripted_env two_workspaces no_tree []) []
        \<lparr> workspaces = [''1'', ''2''], target_output = ''DP-1'',
          preserve_workspace = Some ''2'', placeholder_workspace = None \<rparr>
      = i3_workspace_bulk_move (scripted_env two_workspaces no_tree []) []
        \<lparr> workspaces = [''1''], target_output = ''DP-1'',
          preserve_workspace = Some ''2'', placeholder_workspace = None \<rparr>
   \<and> i3_workspace_bulk_move (scripted_env two_workspaces no_tree []) []
        \<lparr> workspaces = [''1'', ''2''], target_output = ''DP-1'',
          preserve_workspace = Some ''2'', placeholder_workspace = None \<rparr>
      = (BulkDone \<lparr> success = True, moved_count = 1, failed_count = 0,
           moved_workspaces = [\<lparr> mv_ws = ''1'', from_output = ''eDP-1'', to_output = ''DP-1'' \<rparr>],
           failed_workspaces = [],
           preserved_workspace = Some ''2'', summary_placeholder_workspace = None \<rparr>,
         [GetType ''workspaces'', Command ''workspace 1; move workspace to output DP-1''])\<close>
  using bulk_move_skips_preserved
    [of "\<lparr> workspaces = [''1'', ''2''], target_output = ''DP-1'',
          preserve_workspace = Some ''2'', placeholder_workspace = None \<rparr>" "''2''"
        "scripted_env two_workspaces no_tree []" Map.empty "[]" "[]" "[]"]
  by (simp add: eval_defs)

section \<open>Gaps of zero (C10)\<close>

text \<open>
  C10: \<open>i3_gaps_set\<close> with \<open>inner = 0\<close> and \<open>outer = 0\<close> returns the validation failure
  \<open>Must specify at least one of: inner, outer\<close> and makes no transport call, for either
  scope, because the presence test is the truthiness of the values; the same holds when
  one value is \<open>0\<close> and the other is absent. A zero gap is sent only next to a non-zero
  one: \<open>inner = 0\<close> with \<open>outer = k\<close>, \<open>k\<close> not \<open>0\<close>, sends both settings.
\<close>

theorem gaps_set_zero_rejected:
  "i3_gaps_set env log \<lparr> gaps_inner = Some 0, gaps_outer = Some 0, gaps_scope = sc \<rparr>
     = (Failure ''Must specify at least one of: inner, outer'', log)
   \<and> i3_gaps_set env log \<lparr> gaps_inner = Some 0, gaps_outer = None, gaps_scope = sc \<rparr>
     = (Failure ''Must specify at least one of: inner, outer'', log)
   \<and> i3_gaps_set env log \<lparr> gaps_inner = None, gaps_outer = Some 0, gaps_scope = sc \<rparr>
     = (Failure ''Must specify at least one of: inner, outer'', log)
   \<and> (k \<noteq> 0 \<longrightarrow>
        snd (i3_gaps_set env log
               \<lparr> gaps_inner = Some 0, gaps_outer = Some k, gaps_scope = Current \<rparr>)
          = log @ [Command (''gaps inner workspace set 0, gaps outer workspace set ''
                             @ str_int k)])"
  by (simp add: i3_gaps_set_def truthy_int_def Let_def run_i3_msg_def split_def
        str_int_def str_nat.simps digit_def)

theorem gaps_set_zero_rejected_witness:
  "(5::int) \<noteq> 0
   \<and> snd (i3_gaps_set (scripted_env [] no_tree []) []
            \<lparr> gaps_inner = Some 0, gaps_outer = Some 5, gaps_scope = Current \<rparr>)
       = [Command ''gaps inner workspace set 0, gaps outer workspace set 5'']
   \<and> i3_gaps_set (scripted_env [] no_tree []) []
        \<lparr> gaps_inner = Some 0, gaps_outer = Some 0, gaps_scope = All \<rparr>
       = (Failure ''Must specify at least one of: inner, outer'', [])"
  using gaps_set_zero_rejected [of "scripted_env [] no_tree []" "[]" All 5]
        gaps_set_zero_rejected [of "scripted_env [] no_tree []" "[]" Current 5]
  by (simp add: str_int_def str_nat.simps digit_def)

end
